theory Spec2Isabelle
  imports Main "HOL-Library.Sublist"
begin

section \<open>The link press handler of \<open>src/components/Link.tsx\<close>\<close>

text \<open>
  The file exports the hook \<open>useLink\<close> and the two components \<open>Link\<close> and
  \<open>InlineLink\<close>. The hook computes \<open>href\<close> and \<open>isExternal\<close> and builds the press
  handler \<open>onPress\<close>. The handler returns nothing: all it does is call its collaborators
  (the caller's callback, \<open>e.preventDefault\<close>, \<open>openModal\<close>, \<open>closeModal\<close>,
  \<open>Linking.openURL\<close>, the navigator) or throw. The model therefore returns the list of
  those calls in the order the handler makes them, together with how the handler ended.
\<close>

subsection \<open>Values and events\<close>

text \<open>
  The caller's callback is typed \<open>(e) => void | false\<close>; at run time it may hand back
  any value, and the handler compares it with \<open>=== false\<close>.
\<close>

datatype js_value = JUndefined | JNull | JBool bool | JNum int | JStr string

text \<open>
  The fields of the press event the handler reads. \<open>button\<close> is \<open>None\<close> where the event
  has no such field (a touch press); the four key flags are read for truthiness only.
\<close>

record press_event =
  button :: "int option"
  metaKey :: bool
  altKey :: bool
  ctrlKey :: bool
  shiftKey :: bool

text \<open>What \<open>router.matchPath\<close> returns: a screen name and its parameters.\<close>

type_synonym route = "string \<times> (string \<times> string) list"

text \<open>The prop \<open>to\<close>: a string, or a route object of React Navigation.\<close>

datatype link_to = ToString string | ToObject route

text \<open>The prop \<open>children\<close>: only \<open>typeof children === 'string'\<close> is ever asked.\<close>

datatype children = StringChild string | NodeChild

subsection \<open>Calls made by the handler\<close>

datatype effect =
    CallOuterOnPress
  | PreventDefault
  | OpenModal string string string
  | CloseModal
  | OpenURL string
  | DispatchPush route
  | DispatchReplace route
  | NavigationNavigate route

datatype completion = Returned | Thrown string

type_synonym press_result = "effect list \<times> completion"

subsection \<open>Collaborators imported by the file\<close>

text \<open>
  \<open>isWeb\<close>, \<open>sanitizeUrl\<close>, \<open>convertBskyAppUrlIfNeeded\<close>, \<open>isExternalUrl\<close>,
  \<open>linkRequiresWarning\<close>, \<open>router.matchPath\<close> and the \<open>href\<close> computed by
  \<open>useLinkProps\<close> are imported from other modules. They are parameters of the model.
\<close>

record env =
  isWeb :: bool
  sanitizeUrl :: "string \<Rightarrow> string"
  convertBskyAppUrlIfNeeded :: "string \<Rightarrow> string"
  useLinkProps :: "link_to \<Rightarrow> string"
  isExternalUrl :: "string \<Rightarrow> bool"
  linkRequiresWarning :: "string \<Rightarrow> string \<Rightarrow> bool"
  matchPath :: "string \<Rightarrow> route"

subsection \<open>Props\<close>

text \<open>
  \<open>BaseLinkProps\<close>. An optional prop is an \<open>option\<close>, \<open>None\<close> standing for
  \<open>undefined\<close>. The prop \<open>onPress\<close> is bound to the name \<open>outerOnPress\<close> in all three
  functions, and carries that name here. \<open>action\<close> is typed as one of three string
  literals and compared as a string.
\<close>

record base_link_props =
  to :: link_to
  action :: "string option"
  warnOnMismatchingTextChild :: "bool option"
  outerOnPress :: "(press_event \<Rightarrow> js_value) option"
  download :: "string option"

text \<open>What \<open>useLink\<close> returns.\<close>

record link_result =
  isExternal :: bool
  href :: string
  onPress :: "press_event \<Rightarrow> press_result"

text \<open>
  What \<open>Link\<close> and \<open>InlineLink\<close> hand to the element they render (\<open>Button\<close>, \<open>Text\<close>),
  as far as pressing is concerned: the \<open>href\<close> and the \<open>onPress\<close> prop, \<open>None\<close> when
  the component passes \<open>undefined\<close>.
\<close>

record element =
  el_href :: string
  el_onPress :: "(press_event \<Rightarrow> press_result) option"

subsection \<open>The press handler\<close>

text \<open>\<open>outerOnPress?.(e)\<close>: the calls made, and the value obtained.\<close>

definition callOuterOnPress ::
  "(press_event \<Rightarrow> js_value) option \<Rightarrow> press_event \<Rightarrow> effect list \<times> js_value" where
  "callOuterOnPress cb e =
     (case cb of None \<Rightarrow> ([], JUndefined) | Some f \<Rightarrow> ([CallOuterOnPress], f e))"

text \<open>
  \<open>Boolean(warnOnMismatchingTextChild && displayText && isExternal &&
  linkRequiresWarning(href, displayText))\<close>.
\<close>

definition requiresWarning ::
  "env \<Rightarrow> bool option \<Rightarrow> string \<Rightarrow> bool \<Rightarrow> string \<Rightarrow> bool" where
  "requiresWarning env warn displayText ext h =
     (warn = Some True \<and> displayText \<noteq> [] \<and> ext \<and> linkRequiresWarning env h displayText)"

definition isMiddleClick :: "env \<Rightarrow> press_event \<Rightarrow> bool" where
  "isMiddleClick env e = (isWeb env \<and> button e = Some 1)"

definition isMetaKey :: "env \<Rightarrow> press_event \<Rightarrow> bool" where
  "isMetaKey env e = (isWeb env \<and> (metaKey e \<or> altKey e \<or> ctrlKey e \<or> shiftKey e))"

definition shouldOpenInNewTab :: "env \<Rightarrow> press_event \<Rightarrow> bool" where
  "shouldOpenInNewTab env e = (isMetaKey env e \<or> isMiddleClick env e)"

text \<open>The closure \<open>onPress\<close> built by \<open>useLink\<close>, over the values it captures.\<close>

definition useLink_onPress ::
  "env \<Rightarrow> string \<Rightarrow> bool \<Rightarrow> string \<Rightarrow> string \<Rightarrow> bool option \<Rightarrow>
   (press_event \<Rightarrow> js_value) option \<Rightarrow> press_event \<Rightarrow> press_result" where
  "useLink_onPress env h ext displayText act warn cb e =
     (let (t, exitEarlyIfFalse) = callOuterOnPress cb e in
      if exitEarlyIfFalse = JBool False then (t, Returned)
      else if requiresWarning env warn displayText ext h
      then (t @ [PreventDefault, OpenModal ''link-warning'' displayText h], Returned)
      else if ext
      then (t @ [PreventDefault, OpenURL h], Returned)
      else if shouldOpenInNewTab env e \<or> prefix ''http'' h \<or> prefix ''mailto'' h
      then (t @ [PreventDefault, OpenURL h], Returned)
      else if act = ''push''
      then (t @ [PreventDefault, CloseModal, DispatchPush (matchPath env h)], Returned)
      else if act = ''replace''
      then (t @ [PreventDefault, CloseModal, DispatchReplace (matchPath env h)], Returned)
      else if act = ''navigate''
      then (t @ [PreventDefault, CloseModal, NavigationNavigate (matchPath env h)], Returned)
      else (t @ [PreventDefault, CloseModal], Thrown ''Unsupported navigator action.''))"

text \<open>The default of a destructured parameter: \<open>action = 'push'\<close>.\<close>

definition actionOrDefault :: "string option \<Rightarrow> string" where
  "actionOrDefault a = (case a of None \<Rightarrow> ''push'' | Some s \<Rightarrow> s)"

text \<open>
  \<open>typeof to === 'string' ? convertBskyAppUrlIfNeeded(sanitizeUrl(to)) : to\<close>, the
  argument \<open>useLink\<close> gives to \<open>useLinkProps\<close>.
\<close>

definition normalizeTo :: "env \<Rightarrow> link_to \<Rightarrow> link_to" where
  "normalizeTo env t =
     (case t of
        ToString s \<Rightarrow> ToString (convertBskyAppUrlIfNeeded env (sanitizeUrl env s))
      | ToObject r \<Rightarrow> ToObject r)"

definition useLink :: "env \<Rightarrow> base_link_props \<Rightarrow> string \<Rightarrow> link_result" where
  "useLink env props displayText =
     (let h = useLinkProps env (normalizeTo env (to props));
          ext = isExternalUrl env h
      in \<lparr>isExternal = ext, href = h,
          onPress = useLink_onPress env h ext displayText (actionOrDefault (action props))
                      (warnOnMismatchingTextChild props) (outerOnPress props)\<rparr>)"

subsection \<open>The components\<close>

text \<open>\<open>download ? undefined : onPress\<close>: a string is truthy when it is not empty.\<close>

definition truthyString :: "string option \<Rightarrow> bool" where
  "truthyString s = (case s of None \<Rightarrow> False | Some v \<Rightarrow> v \<noteq> [])"

text \<open>
  \<open>Link\<close> takes \<open>children\<close>, \<open>to\<close>, \<open>action\<close>, \<open>onPress\<close> and \<open>download\<close> out of its props
  and spreads the rest onto the \<open>Button\<close>; it calls \<open>useLink\<close> without
  \<open>warnOnMismatchingTextChild\<close>.
\<close>

definition Link :: "env \<Rightarrow> children \<Rightarrow> base_link_props \<Rightarrow> element" where
  "Link env ch props =
     (let r = useLink env
                (props\<lparr>action := Some (actionOrDefault (action props)),
                       warnOnMismatchingTextChild := None\<rparr>)
                (case ch of StringChild s \<Rightarrow> s | NodeChild \<Rightarrow> [])
      in \<lparr>el_href = href r,
          el_onPress = (if truthyString (download props) then None else Some (onPress r))\<rparr>)"

definition InlineLink :: "env \<Rightarrow> children \<Rightarrow> base_link_props \<Rightarrow> element" where
  "InlineLink env ch props =
     (let r = useLink env
                (props\<lparr>action := Some (actionOrDefault (action props))\<rparr>)
                (case ch of StringChild s \<Rightarrow> s | NodeChild \<Rightarrow> [])
      in \<lparr>el_href = href r,
          el_onPress = (if truthyString (download props) then None else Some (onPress r))\<rparr>)"

text \<open>
  A press delivered to a rendered element runs the \<open>onPress\<close> prop the element was
  given; with no such prop nothing of this file runs.
\<close>

definition press :: "element \<Rightarrow> press_event \<Rightarrow> press_result" where
  "press el e = (case el_onPress el of None \<Rightarrow> ([], Returned) | Some f \<Rightarrow> f e)"

subsection \<open>Reading a list of calls\<close>

text \<open>The three calls that hand a route to the navigator, and the call that opens a modal.\<close>

fun isNavigation :: "effect \<Rightarrow> bool" where
  "isNavigation (DispatchPush _) = True"
| "isNavigation (DispatchReplace _) = True"
| "isNavigation (NavigationNavigate _) = True"
| "isNavigation _ = False"

fun isOpenModal :: "effect \<Rightarrow> bool" where
  "isOpenModal (OpenModal _ _ _) = True"
| "isOpenModal _ = False"

subsection \<open>The flat condition of the specification\<close>

text \<open>
  The specification's step 3 in its own words:
  \<open>shouldOpenExternally = isExternal OR modifierClickDetected OR href starts with "http"
  OR href starts with "mailto"\<close>, where \<open>modifierClickDetected\<close> holds only on a
  pointer-capable surface, for a middle click or with one of meta, alt, ctrl, shift held.
  These two definitions are written from that sentence, to be compared with the nested
  branches of \<open>useLink_onPress\<close>.
\<close>

definition spec_modifierClickDetected :: "env \<Rightarrow> press_event \<Rightarrow> bool" where
  "spec_modifierClickDetected env e =
     (isWeb env \<and>
      (button e = Some 1 \<or> metaKey e \<or> altKey e \<or> ctrlKey e \<or> shiftKey e))"

definition spec_shouldOpenExternally :: "env \<Rightarrow> bool \<Rightarrow> string \<Rightarrow> press_event \<Rightarrow> bool" where
  "spec_shouldOpenExternally env ext h e =
     (ext \<or> spec_modifierClickDetected env e \<or> prefix ''http'' h \<or> prefix ''mailto'' h)"

subsection \<open>The normalizer of the specification\<close>

text \<open>A relative path of the application: a string that starts with a slash.\<close>

definition isInternalPath :: "string \<Rightarrow> bool" where
  "isInternalPath p = (case p of [] \<Rightarrow> False | c # _ \<Rightarrow> c = CHR ''/'')"

text \<open>
  Modelled from the spec: the body of \<open>convertBskyAppUrlIfNeeded\<close> lives in
  \<open>lib/strings/url-helpers\<close>, which is not among the sources. The specification (4.1)
  says of it: if the sanitized string matches a recognized in-application URL pattern
  (the same logical origin expressed as a full URL), it is rewritten to the equivalent
  canonical relative path; any other string is left as it is. The origin is a
  parameter. A string matches when it is the origin followed by a relative path, and
  that path is the result.
\<close>

definition convertBskyAppUrlIfNeeded_spec :: "string \<Rightarrow> string \<Rightarrow> string" where
  "convertBskyAppUrlIfNeeded_spec origin url =
     (if prefix origin url \<and> isInternalPath (drop (length origin) url)
      then drop (length origin) url else url)"

subsection \<open>One instance of the collaborators\<close>

text \<open>
  Modelled from the spec: none of the collaborators has its body among the sources.
  To run the handler on concrete presses, one instance is fixed here, chosen to agree
  with the examples of the specification: the application's origin is
  \<open>https://bsky.app\<close>; the sanitizer replaces a \<open>javascript:\<close> URL by \<open>about:blank\<close>
  and keeps every other string; a string \<open>to\<close> is its own \<open>href\<close>; an href is external
  when it starts with \<open>http\<close> or \<open>mailto:\<close>; a display text requires a warning when
  it contains a dot and names another host than the href (4.3); the route of a path
  is the path with no parameters.
\<close>

definition dropScheme :: "string \<Rightarrow> string" where
  "dropScheme s =
     (if prefix ''https://'' s then drop 8 s
      else if prefix ''http://'' s then drop 7 s else s)"

definition hostOf :: "string \<Rightarrow> string" where
  "hostOf s = takeWhile (\<lambda>c. c \<noteq> CHR ''/'') (dropScheme s)"

definition sample_env :: env where
  "sample_env =
     \<lparr>isWeb = True,
      sanitizeUrl = (\<lambda>s. if prefix ''javascript:'' s then ''about:blank'' else s),
      convertBskyAppUrlIfNeeded = convertBskyAppUrlIfNeeded_spec ''https://bsky.app'',
      useLinkProps = (\<lambda>t. case t of ToString s \<Rightarrow> s | ToObject r \<Rightarrow> CHR ''/'' # fst r),
      isExternalUrl = (\<lambda>h. prefix ''http'' h \<or> prefix ''mailto:'' h),
      linkRequiresWarning = (\<lambda>h t. CHR ''.'' \<in> set t \<and> hostOf t \<noteq> hostOf h),
      matchPath = (\<lambda>p. (p, []))\<rparr>"

text \<open>A primary click with no key held, and props with every optional prop absent.\<close>

definition plain_click :: press_event where
  "plain_click =
     \<lparr>button = Some 0, metaKey = False, altKey = False, ctrlKey = False, shiftKey = False\<rparr>"

definition props_to :: "string \<Rightarrow> base_link_props" where
  "props_to s =
     \<lparr>to = ToString s, action = None, warnOnMismatchingTextChild = None,
      outerOnPress = None, download = None\<rparr>"

section \<open>Properties\<close>

subsection \<open>What \<open>useLink\<close> returns\<close>

lemma useLink_href:
  "href (useLink env props d) = useLinkProps env (normalizeTo env (to props))"
  by (simp add: useLink_def Let_def)

lemma useLink_isExternal:
  "isExternal (useLink env props d) = isExternalUrl env (href (useLink env props d))"
  by (simp add: useLink_def Let_def)

lemma onPress_useLink:
  "onPress (useLink env props d) =
     useLink_onPress env (href (useLink env props d)) (isExternal (useLink env props d)) d
       (actionOrDefault (action props)) (warnOnMismatchingTextChild props) (outerOnPress props)"
  by (simp add: useLink_def Let_def)

subsection \<open>The callback's part of the calls\<close>

lemma callOuterOnPress_trace: "set (fst (callOuterOnPress cb e)) \<subseteq> {CallOuterOnPress}"
  by (simp add: callOuterOnPress_def split: option.splits)

lemma callOuterOnPress_no_OpenURL [simp]: "OpenURL u \<notin> set (fst (callOuterOnPress cb e))"
  using callOuterOnPress_trace [of cb e] by auto

lemma callOuterOnPress_no_OpenModal [simp]:
  "OpenModal n x u \<notin> set (fst (callOuterOnPress cb e))"
  using callOuterOnPress_trace [of cb e] by auto

lemma callOuterOnPress_no_PreventDefault [simp]:
  "PreventDefault \<notin> set (fst (callOuterOnPress cb e))"
  using callOuterOnPress_trace [of cb e] by auto

lemma callOuterOnPress_count [simp]:
  "x \<noteq> CallOuterOnPress \<Longrightarrow> count_list (fst (callOuterOnPress cb e)) x = 0"
  by (simp add: callOuterOnPress_def split: option.splits)

lemma callOuterOnPress_not_isNavigation [simp]:
  "x \<in> set (fst (callOuterOnPress cb e)) \<Longrightarrow> \<not> isNavigation x"
  using callOuterOnPress_trace [of cb e] by auto

lemma callOuterOnPress_not_isOpenModal [simp]:
  "x \<in> set (fst (callOuterOnPress cb e)) \<Longrightarrow> \<not> isOpenModal x"
  using callOuterOnPress_trace [of cb e] by auto

subsection \<open>The nested branches, flattened\<close>

lemma spec_modifier_eq: "spec_modifierClickDetected env e = shouldOpenInNewTab env e"
  by (auto simp: spec_modifierClickDetected_def shouldOpenInNewTab_def isMetaKey_def
        isMiddleClick_def)

text \<open>
  The handler tests \<open>isExternal\<close> first and the modifiers and prefixes only in its
  \<open>else\<close> branch; both branches make the same calls, so the two tests merge into the
  flat condition.
\<close>

lemma onPress_unfold:
  "useLink_onPress env h ext d act warn cb e =
     (if snd (callOuterOnPress cb e) = JBool False then (fst (callOuterOnPress cb e), Returned)
      else if requiresWarning env warn d ext h
      then (fst (callOuterOnPress cb e) @ [PreventDefault, OpenModal ''link-warning'' d h],
            Returned)
      else if spec_shouldOpenExternally env ext h e
      then (fst (callOuterOnPress cb e) @ [PreventDefault, OpenURL h], Returned)
      else if act = ''push''
      then (fst (callOuterOnPress cb e)
              @ [PreventDefault, CloseModal, DispatchPush (matchPath env h)], Returned)
      else if act = ''replace''
      then (fst (callOuterOnPress cb e)
              @ [PreventDefault, CloseModal, DispatchReplace (matchPath env h)], Returned)
      else if act = ''navigate''
      then (fst (callOuterOnPress cb e)
              @ [PreventDefault, CloseModal, NavigationNavigate (matchPath env h)], Returned)
      else (fst (callOuterOnPress cb e) @ [PreventDefault, CloseModal],
            Thrown ''Unsupported navigator action.''))"
  by (simp add: useLink_onPress_def spec_shouldOpenExternally_def spec_modifier_eq
        split: prod.splits)

text \<open>The definitions to unfold when the handler is run on a concrete press.\<close>

lemmas sample_simps =
  Let_def useLink_def useLink_onPress_def sample_env_def props_to_def plain_click_def
  callOuterOnPress_def requiresWarning_def shouldOpenInNewTab_def isMetaKey_def isMiddleClick_def
  actionOrDefault_def normalizeTo_def convertBskyAppUrlIfNeeded_spec_def isInternalPath_def
  spec_shouldOpenExternally_def spec_modifierClickDetected_def hostOf_def dropScheme_def
  Link_def InlineLink_def press_def truthyString_def

subsection \<open>Opening externally or navigating\<close>

text \<open>
  C1. Take a press that the callback does not cancel and that does not require a
  warning. The handler calls \<open>Linking.openURL(href)\<close> exactly when the flat condition
  of the specification holds (the link is external, or a modifier click is detected on
  the web, or the href starts with \<open>http\<close> or with \<open>mailto\<close>), and then that call
  follows \<open>preventDefault\<close> and is the last one. In every other case, with one of the
  three actions, the handler closes the modal and hands the matched route to the
  navigator with that action.
\<close>

theorem press_opens_externally_iff:
  assumes r: "r = useLink env props displayText"
    and t: "t = fst (callOuterOnPress (outerOnPress props) e)"
    and go: "snd (callOuterOnPress (outerOnPress props) e) \<noteq> JBool False"
    and nowarn: "\<not> requiresWarning env (warnOnMismatchingTextChild props) displayText
                     (isExternal r) (href r)"
  shows "(OpenURL (href r) \<in> set (fst (onPress r e)))
           = spec_shouldOpenExternally env (isExternal r) (href r) e
       \<and> (spec_shouldOpenExternally env (isExternal r) (href r) e \<longrightarrow>
            onPress r e = (t @ [PreventDefault, OpenURL (href r)], Returned))
       \<and> (\<not> spec_shouldOpenExternally env (isExternal r) (href r) e \<longrightarrow>
            (actionOrDefault (action props) = ''push'' \<longrightarrow>
               onPress r e =
                 (t @ [PreventDefault, CloseModal, DispatchPush (matchPath env (href r))],
                  Returned))
          \<and> (actionOrDefault (action props) = ''replace'' \<longrightarrow>
               onPress r e =
                 (t @ [PreventDefault, CloseModal, DispatchReplace (matchPath env (href r))],
                  Returned))
          \<and> (actionOrDefault (action props) = ''navigate'' \<longrightarrow>
               onPress r e =
                 (t @ [PreventDefault, CloseModal, NavigationNavigate (matchPath env (href r))],
                  Returned)))"
  using go nowarn unfolding r t onPress_useLink [of env props displayText] onPress_unfold
  by simp

text \<open>
  On the internal path \<open>/profile/alice\<close>: with the meta key held the handler opens the
  href externally, and a plain click pushes the route.
\<close>

theorem press_opens_externally_iff_witness:
  "snd (callOuterOnPress (outerOnPress (props_to ''/profile/alice''))
          (plain_click\<lparr>metaKey := True\<rparr>)) \<noteq> JBool False
   \<and> \<not> requiresWarning sample_env (warnOnMismatchingTextChild (props_to ''/profile/alice'')) []
         (isExternal (useLink sample_env (props_to ''/profile/alice'') []))
         (href (useLink sample_env (props_to ''/profile/alice'') []))
   \<and> \<not> isExternal (useLink sample_env (props_to ''/profile/alice'') [])
   \<and> spec_shouldOpenExternally sample_env False ''/profile/alice''
         (plain_click\<lparr>metaKey := True\<rparr>)
   \<and> onPress (useLink sample_env (props_to ''/profile/alice'') [])
        (plain_click\<lparr>metaKey := True\<rparr>)
     = ([PreventDefault, OpenURL ''/profile/alice''], Returned)
   \<and> \<not> spec_shouldOpenExternally sample_env False ''/profile/alice'' plain_click
   \<and> onPress (useLink sample_env (props_to ''/profile/alice'') []) plain_click
     = ([PreventDefault, CloseModal, DispatchPush (''/profile/alice'', [])], Returned)"
  using press_opens_externally_iff
          [OF refl refl, of "props_to ''/profile/alice''" "plain_click\<lparr>metaKey := True\<rparr>"
             sample_env "[]"]
        press_opens_externally_iff
          [OF refl refl, of "props_to ''/profile/alice''" plain_click sample_env "[]"]
  by (simp add: sample_simps)

subsection \<open>Cancelling from the callback\<close>

text \<open>
  C2. When the caller's callback returns exactly \<open>false\<close>, the handler calls the
  callback and nothing else, and returns: no \<open>preventDefault\<close>, no modal opened or
  closed, no external open, no navigation; this holds for every event, target, display
  text and setting of the warning. When the callback returns any other value
  (\<open>undefined\<close> included), the handler goes on exactly as it does with no callback at
  all, starting with \<open>preventDefault\<close>.
\<close>

theorem callback_false_cancels:
  assumes r: "r = useLink env props displayText"
    and r0: "r0 = useLink env (props\<lparr>outerOnPress := None\<rparr>) displayText"
    and cb: "outerOnPress props = Some cb"
  shows "(cb e = JBool False \<longrightarrow> onPress r e = ([CallOuterOnPress], Returned))
       \<and> (cb e \<noteq> JBool False \<longrightarrow>
            onPress r e = (CallOuterOnPress # fst (onPress r0 e), snd (onPress r0 e))
          \<and> PreventDefault \<in> set (fst (onPress r e)))"
  unfolding r r0 onPress_useLink useLink_href useLink_isExternal onPress_unfold
  by (simp add: cb callOuterOnPress_def)

text \<open>
  A callback returning \<open>false\<close> cancels a press on an external link with a mismatching
  text, warnings on and the meta key held; a callback returning \<open>undefined\<close> lets a
  plain click on \<open>/profile/alice\<close> navigate.
\<close>

theorem callback_false_cancels_witness:
  "outerOnPress ((props_to ''https://other.com'')\<lparr>warnOnMismatchingTextChild := Some True,
       outerOnPress := Some (\<lambda>e. JBool False)\<rparr>) = Some (\<lambda>e. JBool False)
   \<and> onPress (useLink sample_env
       ((props_to ''https://other.com'')\<lparr>warnOnMismatchingTextChild := Some True,
          outerOnPress := Some (\<lambda>e. JBool False)\<rparr>) ''example.com'')
     (plain_click\<lparr>metaKey := True\<rparr>)
     = ([CallOuterOnPress], Returned)
   \<and> JUndefined \<noteq> JBool False
   \<and> onPress (useLink sample_env
       ((props_to ''/profile/alice'')\<lparr>outerOnPress := Some (\<lambda>e. JUndefined)\<rparr>) [])
     plain_click
     = ([CallOuterOnPress, PreventDefault, CloseModal, DispatchPush (''/profile/alice'', [])],
        Returned)"
  using callback_false_cancels
          [OF refl refl,
           of "(props_to ''https://other.com'')\<lparr>warnOnMismatchingTextChild := Some True,
                 outerOnPress := Some (\<lambda>e. JBool False)\<rparr>"
              "\<lambda>e. JBool False" "plain_click\<lparr>metaKey := True\<rparr>" sample_env "''example.com''"]
        callback_false_cancels
          [OF refl refl,
           of "(props_to ''/profile/alice'')\<lparr>outerOnPress := Some (\<lambda>e. JUndefined)\<rparr>"
              "\<lambda>e. JUndefined" plain_click sample_env "[]"]
  by (simp add: sample_simps)

subsection \<open>The mismatch warning\<close>

text \<open>
  C3. On a press the callback does not cancel, the handler opens the modal
  \<open>link-warning\<close> with the display text and the href (and it opens any modal at all)
  exactly when the four conditions hold together: \<open>warnOnMismatchingTextChild\<close> is
  true, the display text is not empty, the link is external, and \<open>linkRequiresWarning\<close>
  flags the href with the text. The modal then follows \<open>preventDefault\<close> and is the
  last call. With the warning not switched on, a press on an external link goes
  straight to \<open>Linking.openURL\<close>, whatever \<open>linkRequiresWarning\<close> says.
\<close>

theorem warn_iff_four_conditions:
  assumes r: "r = useLink env props displayText"
    and t: "t = fst (callOuterOnPress (outerOnPress props) e)"
    and go: "snd (callOuterOnPress (outerOnPress props) e) \<noteq> JBool False"
  shows "(OpenModal ''link-warning'' displayText (href r) \<in> set (fst (onPress r e)))
           = (warnOnMismatchingTextChild props = Some True \<and> displayText \<noteq> []
              \<and> isExternal r \<and> linkRequiresWarning env (href r) displayText)
       \<and> (\<exists>x \<in> set (fst (onPress r e)). isOpenModal x)
           = (warnOnMismatchingTextChild props = Some True \<and> displayText \<noteq> []
              \<and> isExternal r \<and> linkRequiresWarning env (href r) displayText)
       \<and> (warnOnMismatchingTextChild props = Some True \<and> displayText \<noteq> []
              \<and> isExternal r \<and> linkRequiresWarning env (href r) displayText \<longrightarrow>
            onPress r e
              = (t @ [PreventDefault, OpenModal ''link-warning'' displayText (href r)], Returned))
       \<and> (warnOnMismatchingTextChild props \<noteq> Some True \<and> isExternal r \<longrightarrow>
            onPress r e = (t @ [PreventDefault, OpenURL (href r)], Returned))"
  using go unfolding r t onPress_useLink [of env props displayText] onPress_unfold
  by (auto simp: requiresWarning_def spec_shouldOpenExternally_def)

text \<open>
  The example of the specification: the text \<open>example.com\<close> on the href
  \<open>https://other.com\<close> opens the warning when warnings are on, and opens the URL when
  they are not.
\<close>

theorem warn_iff_four_conditions_witness:
  "snd (callOuterOnPress None plain_click) \<noteq> JBool False
   \<and> isExternal (useLink sample_env (props_to ''https://other.com'') ''example.com'')
   \<and> linkRequiresWarning sample_env ''https://other.com'' ''example.com''
   \<and> onPress (useLink sample_env
        ((props_to ''https://other.com'')\<lparr>warnOnMismatchingTextChild := Some True\<rparr>)
        ''example.com'') plain_click
     = ([PreventDefault, OpenModal ''link-warning'' ''example.com'' ''https://other.com''],
        Returned)
   \<and> onPress (useLink sample_env (props_to ''https://other.com'') ''example.com'') plain_click
     = ([PreventDefault, OpenURL ''https://other.com''], Returned)"
  using warn_iff_four_conditions
          [OF refl refl, where env = sample_env and e = plain_click
             and displayText = "''example.com''"
             and props = "(props_to ''https://other.com'')\<lparr>warnOnMismatchingTextChild := Some True\<rparr>"]
        warn_iff_four_conditions
          [OF refl refl, where env = sample_env and e = plain_click
             and displayText = "''example.com''" and props = "props_to ''https://other.com''"]
  by (simp add: sample_simps)

subsection \<open>External links\<close>

text \<open>
  C4, as stated, fails: an external link pressed with no modifier key and no callback
  opens the warning modal, and not the URL, when the warning is switched on and the
  text mismatches. The handler tests \<open>requiresWarning\<close> before \<open>isExternal\<close>.
\<close>

theorem external_press_warns_counterexample:
  "isExternal (useLink sample_env
       ((props_to ''https://other.com'')\<lparr>warnOnMismatchingTextChild := Some True\<rparr>)
       ''example.com'')
   \<and> \<not> shouldOpenInNewTab sample_env plain_click
   \<and> outerOnPress ((props_to ''https://other.com'')\<lparr>warnOnMismatchingTextChild := Some True\<rparr>)
       = None
   \<and> onPress (useLink sample_env
        ((props_to ''https://other.com'')\<lparr>warnOnMismatchingTextChild := Some True\<rparr>)
        ''example.com'') plain_click
     = ([PreventDefault, OpenModal ''link-warning'' ''example.com'' ''https://other.com''],
        Returned)
   \<and> OpenURL ''https://other.com''
       \<notin> set (fst (onPress (useLink sample_env
              ((props_to ''https://other.com'')\<lparr>warnOnMismatchingTextChild := Some True\<rparr>)
              ''example.com'') plain_click))"
  by (simp add: sample_simps)

text \<open>
  C4, amended. For an href classified external: a press with no modifier key, not
  cancelled by the callback and not requiring a mismatch warning calls
  \<open>Linking.openURL(href)\<close> after \<open>preventDefault\<close> and nothing else; and no press at
  all on such a link hands a route to the navigator.
\<close>

theorem external_press_opens_url:
  assumes r: "r = useLink env props displayText"
    and t: "t = fst (callOuterOnPress (outerOnPress props) e)"
    and ext: "isExternal r"
  shows "(snd (callOuterOnPress (outerOnPress props) e) \<noteq> JBool False
          \<and> \<not> shouldOpenInNewTab env e
          \<and> \<not> requiresWarning env (warnOnMismatchingTextChild props) displayText
                (isExternal r) (href r)
          \<longrightarrow> onPress r e = (t @ [PreventDefault, OpenURL (href r)], Returned))
       \<and> (\<forall>x \<in> set (fst (onPress r e)). \<not> isNavigation x)"
  using ext unfolding r t onPress_useLink [of env props displayText] onPress_unfold
  by (auto simp: spec_shouldOpenExternally_def)

theorem external_press_opens_url_witness:
  "isExternal (useLink sample_env (props_to ''https://example.com/page'') ''read more'')
   \<and> snd (callOuterOnPress (outerOnPress (props_to ''https://example.com/page'')) plain_click)
       \<noteq> JBool False
   \<and> \<not> shouldOpenInNewTab sample_env plain_click
   \<and> \<not> requiresWarning sample_env
         (warnOnMismatchingTextChild (props_to ''https://example.com/page'')) ''read more''
         True ''https://example.com/page''
   \<and> onPress (useLink sample_env (props_to ''https://example.com/page'') ''read more'')
        plain_click
     = ([PreventDefault, OpenURL ''https://example.com/page''], Returned)"
  using external_press_opens_url
          [OF refl refl, where env = sample_env and props = "props_to ''https://example.com/page''"
             and displayText = "''read more''" and e = plain_click]
  by (simp add: sample_simps)

subsection \<open>Internal links\<close>

text \<open>
  C5. A press on an internal href that is not cancelled and not diverted to an
  external open (no modifier click, no \<open>http\<close> or \<open>mailto\<close> prefix), with no \<open>action\<close>
  given, makes exactly these calls after the callback: \<open>preventDefault\<close>, then
  \<open>closeModal\<close>, then the dispatch of \<open>StackActions.push\<close> with the route that
  \<open>router.matchPath(href)\<close> returns. The modal is closed before the dispatch.
\<close>

theorem internal_press_pushes:
  assumes r: "r = useLink env props displayText"
    and t: "t = fst (callOuterOnPress (outerOnPress props) e)"
    and go: "snd (callOuterOnPress (outerOnPress props) e) \<noteq> JBool False"
    and int: "\<not> isExternal r"
    and nomod: "\<not> shouldOpenInNewTab env e"
    and nohttp: "\<not> prefix ''http'' (href r)"
    and nomailto: "\<not> prefix ''mailto'' (href r)"
    and act: "action props = None"
  shows "onPress r e
           = (t @ [PreventDefault, CloseModal, DispatchPush (matchPath env (href r))], Returned)"
  using go int nomod nohttp nomailto
  unfolding r t onPress_useLink [of env props displayText] onPress_unfold
  by (simp add: act actionOrDefault_def requiresWarning_def spec_shouldOpenExternally_def
        spec_modifier_eq)

theorem internal_press_pushes_witness:
  "snd (callOuterOnPress (outerOnPress (props_to ''/profile/alice'')) plain_click) \<noteq> JBool False
   \<and> \<not> isExternal (useLink sample_env (props_to ''/profile/alice'') ''Alice'')
   \<and> \<not> shouldOpenInNewTab sample_env plain_click
   \<and> href (useLink sample_env (props_to ''/profile/alice'') ''Alice'') = ''/profile/alice''
   \<and> \<not> prefix ''http'' ''/profile/alice'' \<and> \<not> prefix ''mailto'' ''/profile/alice''
   \<and> action (props_to ''/profile/alice'') = None
   \<and> onPress (useLink sample_env (props_to ''/profile/alice'') ''Alice'') plain_click
     = ([PreventDefault, CloseModal, DispatchPush (matchPath sample_env ''/profile/alice'')],
        Returned)
   \<and> matchPath sample_env ''/profile/alice'' = (''/profile/alice'', [])"
  using internal_press_pushes
          [OF refl refl, where env = sample_env and e = plain_click
             and displayText = "''Alice''" and props = "props_to ''/profile/alice''"]
  by (simp add: sample_simps)

subsection \<open>An unsupported action\<close>

text \<open>
  C6. The handler throws exactly when a press reaches the point of dispatch (not
  cancelled, link not external, no modifier click, no \<open>http\<close> or \<open>mailto\<close> prefix) with
  an action that is none of \<open>push\<close>, \<open>replace\<close>, \<open>navigate\<close>. It then throws
  \<open>Unsupported navigator action.\<close> at once, after \<open>preventDefault\<close> and \<open>closeModal\<close>:
  no route is handed to the navigator, no modal is opened, nothing is tried again.
\<close>

theorem unsupported_action_throws:
  assumes r: "r = useLink env props displayText"
    and t: "t = fst (callOuterOnPress (outerOnPress props) e)"
    and act: "act = actionOrDefault (action props)"
  shows "(snd (onPress r e) \<noteq> Returned)
           = (snd (callOuterOnPress (outerOnPress props) e) \<noteq> JBool False
              \<and> \<not> isExternal r \<and> \<not> shouldOpenInNewTab env e
              \<and> \<not> prefix ''http'' (href r) \<and> \<not> prefix ''mailto'' (href r)
              \<and> act \<noteq> ''push'' \<and> act \<noteq> ''replace'' \<and> act \<noteq> ''navigate'')
       \<and> (snd (onPress r e) \<noteq> Returned \<longrightarrow>
            onPress r e
              = (t @ [PreventDefault, CloseModal], Thrown ''Unsupported navigator action.''))"
  unfolding r t act onPress_useLink [of env props displayText] onPress_unfold
  by (auto simp: requiresWarning_def spec_shouldOpenExternally_def spec_modifier_eq)

theorem unsupported_action_throws_witness:
  "snd (callOuterOnPress
          (outerOnPress ((props_to ''/profile/alice'')\<lparr>action := Some ''reset''\<rparr>)) plain_click)
     \<noteq> JBool False
   \<and> \<not> isExternal (useLink sample_env
           ((props_to ''/profile/alice'')\<lparr>action := Some ''reset''\<rparr>) [])
   \<and> \<not> shouldOpenInNewTab sample_env plain_click
   \<and> actionOrDefault (action ((props_to ''/profile/alice'')\<lparr>action := Some ''reset''\<rparr>))
       = ''reset''
   \<and> onPress (useLink sample_env ((props_to ''/profile/alice'')\<lparr>action := Some ''reset''\<rparr>) [])
        plain_click
     = ([PreventDefault, CloseModal], Thrown ''Unsupported navigator action.'')"
  using unsupported_action_throws
          [OF refl refl refl, where env = sample_env and e = plain_click
             and displayText = "[]"
             and props = "(props_to ''/profile/alice'')\<lparr>action := Some ''reset''\<rparr>"]
  by (simp add: sample_simps)

subsection \<open>Suppressing the default action\<close>

text \<open>
  C7. The handler calls \<open>preventDefault\<close> exactly once on every press that gets past
  the callback, as its first call after the callback, in the warning branch and in the
  other branch alike (and also when it goes on to throw); when the callback cancels,
  the handler does not call it at all.
\<close>

theorem preventDefault_exactly_once:
  assumes r: "r = useLink env props displayText"
    and t: "t = fst (callOuterOnPress (outerOnPress props) e)"
  shows "count_list (fst (onPress r e)) PreventDefault
           = (if snd (callOuterOnPress (outerOnPress props) e) = JBool False then 0 else 1)
       \<and> (snd (callOuterOnPress (outerOnPress props) e) \<noteq> JBool False \<longrightarrow>
            (\<exists>rest. fst (onPress r e) = t @ PreventDefault # rest
                    \<and> PreventDefault \<notin> set rest))"
  unfolding r t onPress_useLink [of env props displayText] onPress_unfold
  by simp

theorem preventDefault_exactly_once_witness:
  "snd (callOuterOnPress
          (outerOnPress ((props_to ''https://other.com'')\<lparr>warnOnMismatchingTextChild := Some True\<rparr>))
          plain_click) \<noteq> JBool False
   \<and> count_list
        (fst (onPress (useLink sample_env
           ((props_to ''https://other.com'')\<lparr>warnOnMismatchingTextChild := Some True\<rparr>)
           ''example.com'') plain_click)) PreventDefault = 1
   \<and> count_list
        (fst (onPress (useLink sample_env (props_to ''/profile/alice'') []) plain_click))
        PreventDefault = 1
   \<and> count_list
        (fst (onPress (useLink sample_env
           ((props_to ''/profile/alice'')\<lparr>outerOnPress := Some (\<lambda>e. JBool False)\<rparr>) [])
           plain_click)) PreventDefault = 0"
  using preventDefault_exactly_once
          [OF refl refl, where env = sample_env and e = plain_click
             and displayText = "''example.com''"
             and props = "(props_to ''https://other.com'')\<lparr>warnOnMismatchingTextChild := Some True\<rparr>"]
        preventDefault_exactly_once
          [OF refl refl, where env = sample_env and e = plain_click
             and displayText = "[]" and props = "props_to ''/profile/alice''"]
        preventDefault_exactly_once
          [OF refl refl, where env = sample_env and e = plain_click
             and displayText = "[]"
             and props = "(props_to ''/profile/alice'')\<lparr>outerOnPress := Some (\<lambda>e. JBool False)\<rparr>"]
  by (simp add: sample_simps)

subsection \<open>The normalizer\<close>

lemma convert_spec_full_url:
  assumes "isInternalPath q"
  shows "convertBskyAppUrlIfNeeded_spec origin (origin @ q) = q"
  using assms by (simp add: convertBskyAppUrlIfNeeded_spec_def)

lemma convert_spec_relative_path:
  assumes "isInternalPath q" and "\<not> isInternalPath origin"
  shows "convertBskyAppUrlIfNeeded_spec origin q = q"
proof (cases origin)
  case Nil
  then show ?thesis by (simp add: convertBskyAppUrlIfNeeded_spec_def)
next
  case (Cons c cs)
  with assms have "\<not> prefix origin q"
    by (cases q) (auto simp: isInternalPath_def)
  then show ?thesis by (simp add: convertBskyAppUrlIfNeeded_spec_def)
qed

text \<open>
  C8. With the rewriting of the specification: let the origin be a full-URL prefix
  (not itself a relative path) and let \<open>p\<close> be a path that the sanitizer treats alike
  in both forms and leaves a relative path. Then \<open>useLink\<close> computes the same \<open>href\<close>
  for the full same-origin URL \<open>origin @ p\<close> and for the relative path \<open>p\<close>: both are
  normalized to the sanitized path.
\<close>

theorem normalizer_same_origin_roundtrip:
  assumes conv: "convertBskyAppUrlIfNeeded env = convertBskyAppUrlIfNeeded_spec origin"
    and org: "\<not> isInternalPath origin"
    and san: "sanitizeUrl env (origin @ p) = origin @ sanitizeUrl env p"
    and path: "isInternalPath (sanitizeUrl env p)"
  shows "normalizeTo env (ToString (origin @ p)) = ToString (sanitizeUrl env p)
       \<and> normalizeTo env (ToString p) = ToString (sanitizeUrl env p)
       \<and> href (useLink env (props\<lparr>to := ToString (origin @ p)\<rparr>) d)
           = href (useLink env (props\<lparr>to := ToString p\<rparr>) d)"
proof -
  have full: "normalizeTo env (ToString (origin @ p)) = ToString (sanitizeUrl env p)"
    by (simp add: normalizeTo_def conv san convert_spec_full_url [OF path])
  have rel: "normalizeTo env (ToString p) = ToString (sanitizeUrl env p)"
    by (simp add: normalizeTo_def conv convert_spec_relative_path [OF path org])
  show ?thesis
    by (simp add: full rel useLink_href)
qed

theorem normalizer_same_origin_roundtrip_witness:
  "convertBskyAppUrlIfNeeded sample_env = convertBskyAppUrlIfNeeded_spec ''https://bsky.app''
   \<and> \<not> isInternalPath ''https://bsky.app''
   \<and> sanitizeUrl sample_env (''https://bsky.app'' @ ''/profile/alice'')
       = ''https://bsky.app'' @ sanitizeUrl sample_env ''/profile/alice''
   \<and> isInternalPath (sanitizeUrl sample_env ''/profile/alice'')
   \<and> href (useLink sample_env (props_to ''https://bsky.app/profile/alice'') [])
       = ''/profile/alice''
   \<and> href (useLink sample_env (props_to ''/profile/alice'') []) = ''/profile/alice''"
  using normalizer_same_origin_roundtrip
          [where env = sample_env and origin = "''https://bsky.app''"
             and p = "''/profile/alice''" and props = "props_to ''/''" and d = "[]"]
  by (simp add: sample_simps)

subsection \<open>Where a warning can come from\<close>

lemma onPress_warns_only_if:
  assumes "x \<in> set (fst (useLink_onPress env h ext d act warn cb e))" and "isOpenModal x"
  shows "warn = Some True \<and> d \<noteq> []"
  using assms unfolding onPress_unfold
  by (auto simp: requiresWarning_def split: if_splits)

text \<open>
  \<open>InlineLink\<close> with a string child can open the warning: the example of the
  specification, pressed on the rendered element.
\<close>

lemma inlineLink_string_child_warns:
  "press (InlineLink sample_env (StringChild ''example.com'')
            ((props_to ''https://other.com'')\<lparr>warnOnMismatchingTextChild := Some True\<rparr>))
     plain_click
     = ([PreventDefault, OpenModal ''link-warning'' ''example.com'' ''https://other.com''],
        Returned)"
  by (simp add: sample_simps)

text \<open>
  C9. A press on a \<open>Link\<close> never opens a modal, whatever its props, children, target
  and event: \<open>Link\<close> calls \<open>useLink\<close> without \<open>warnOnMismatchingTextChild\<close>. A press on
  an \<open>InlineLink\<close> opens a modal only if its child is a string, and a non-empty one,
  and \<open>warnOnMismatchingTextChild\<close> is true: for any other child the display text is
  empty.
\<close>

theorem warning_only_from_inline_string_child:
  "(\<forall>x \<in> set (fst (press (Link env ch props) e)). \<not> isOpenModal x)
   \<and> ((\<exists>x \<in> set (fst (press (InlineLink env ch props) e)). isOpenModal x) \<longrightarrow>
        (\<exists>s. ch = StringChild s \<and> s \<noteq> []) \<and> warnOnMismatchingTextChild props = Some True)"
proof -
  have link: "\<not> isOpenModal x" if "x \<in> set (fst (press (Link env ch props) e))" for x
  proof
    assume m: "isOpenModal x"
    show False
    proof (cases "truthyString (download props)")
      case True
      with that show False by (simp add: Link_def press_def Let_def)
    next
      case False
      with that have "x \<in> set (fst (onPress
          (useLink env (props\<lparr>action := Some (actionOrDefault (action props)),
                               warnOnMismatchingTextChild := None\<rparr>)
             (case ch of StringChild s \<Rightarrow> s | NodeChild \<Rightarrow> [])) e))"
        by (simp add: Link_def press_def Let_def)
      then show False
        using onPress_warns_only_if [OF _ m] unfolding onPress_useLink by fastforce
    qed
  qed
  have inline: "(\<exists>s. ch = StringChild s \<and> s \<noteq> []) \<and> warnOnMismatchingTextChild props = Some True"
    if "x \<in> set (fst (press (InlineLink env ch props) e))" and m: "isOpenModal x" for x
  proof (cases "truthyString (download props)")
    case True
    with that show ?thesis by (simp add: InlineLink_def press_def Let_def)
  next
    case False
    with that have "x \<in> set (fst (onPress
        (useLink env (props\<lparr>action := Some (actionOrDefault (action props))\<rparr>)
           (case ch of StringChild s \<Rightarrow> s | NodeChild \<Rightarrow> [])) e))"
      by (simp add: InlineLink_def press_def Let_def)
    then have "warnOnMismatchingTextChild props = Some True
        \<and> (case ch of StringChild s \<Rightarrow> s | NodeChild \<Rightarrow> []) \<noteq> []"
      using onPress_warns_only_if [OF _ m] unfolding onPress_useLink by fastforce
    then show ?thesis by (cases ch) auto
  qed
  show ?thesis using link inline by blast
qed

theorem warning_only_from_inline_string_child_witness:
  "press (Link sample_env (StringChild ''example.com'')
         ((props_to ''https://other.com'')\<lparr>warnOnMismatchingTextChild := Some True\<rparr>))
         plain_click
     = ([PreventDefault, OpenURL ''https://other.com''], Returned)
   \<and> press (InlineLink sample_env (StringChild ''example.com'')
         ((props_to ''https://other.com'')\<lparr>warnOnMismatchingTextChild := Some True\<rparr>))
         plain_click
     = ([PreventDefault, OpenModal ''link-warning'' ''example.com'' ''https://other.com''],
        Returned)
   \<and> isOpenModal (OpenModal ''link-warning'' ''example.com'' ''https://other.com'')
   \<and> warnOnMismatchingTextChild
        ((props_to ''https://other.com'')\<lparr>warnOnMismatchingTextChild := Some True\<rparr>)
       = Some True
   \<and> press (InlineLink sample_env NodeChild
         ((props_to ''https://other.com'')\<lparr>warnOnMismatchingTextChild := Some True\<rparr>))
         plain_click
     = ([PreventDefault, OpenURL ''https://other.com''], Returned)"
  using warning_only_from_inline_string_child
          [where env = sample_env and e = plain_click and ch = "StringChild ''example.com''"
             and props = "(props_to ''https://other.com'')\<lparr>warnOnMismatchingTextChild := Some True\<rparr>"]
  by (simp add: sample_simps)

subsection \<open>The \<open>download\<close> prop\<close>

text \<open>
  C10, as stated, fails for a \<open>download\<close> prop set to the empty string: the components
  test \<open>download\<close> for truthiness, the empty string is falsy, and the handler stays
  attached and runs.
\<close>

theorem download_empty_string_counterexample:
  "download ((props_to ''/profile/alice'')\<lparr>download := Some []\<rparr>) = Some []
   \<and> el_onPress (Link sample_env NodeChild ((props_to ''/profile/alice'')\<lparr>download := Some []\<rparr>))
       \<noteq> None
   \<and> press (Link sample_env NodeChild ((props_to ''/profile/alice'')\<lparr>download := Some []\<rparr>))
        plain_click
     = ([PreventDefault, CloseModal, DispatchPush (''/profile/alice'', [])], Returned)
   \<and> press (InlineLink sample_env NodeChild
              ((props_to ''/profile/alice'')\<lparr>download := Some []\<rparr>)) plain_click
     = ([PreventDefault, CloseModal, DispatchPush (''/profile/alice'', [])], Returned)"
  by (simp add: sample_simps)

text \<open>
  C10, amended. When the \<open>download\<close> prop of a \<open>Link\<close> or an \<open>InlineLink\<close> is a
  non-empty string, the element is rendered with no \<open>onPress\<close>, and a press on it makes
  no call at all: the callback is not called, nothing is suppressed, no modal is
  opened or closed, no URL is opened, no route is dispatched.
\<close>

theorem download_detaches_handler:
  assumes "truthyString (download props)"
  shows "el_onPress (Link env ch props) = None
       \<and> el_onPress (InlineLink env ch props) = None
       \<and> press (Link env ch props) e = ([], Returned)
       \<and> press (InlineLink env ch props) e = ([], Returned)"
  using assms by (simp add: Link_def InlineLink_def press_def Let_def)

theorem download_detaches_handler_witness:
  "truthyString (download ((props_to ''/files/report'')\<lparr>download := Some ''report.pdf'',
       outerOnPress := Some (\<lambda>e. JUndefined)\<rparr>))
   \<and> press (Link sample_env (StringChild ''report'')
        ((props_to ''/files/report'')\<lparr>download := Some ''report.pdf'',
           outerOnPress := Some (\<lambda>e. JUndefined)\<rparr>)) plain_click = ([], Returned)
   \<and> press (InlineLink sample_env (StringChild ''report'')
        ((props_to ''/files/report'')\<lparr>download := Some ''report.pdf'',
           outerOnPress := Some (\<lambda>e. JUndefined)\<rparr>)) plain_click = ([], Returned)"
  using download_detaches_handler
          [where env = sample_env and e = plain_click and ch = "StringChild ''report''"
             and props = "(props_to ''/files/report'')\<lparr>download := Some ''report.pdf'',
                            outerOnPress := Some (\<lambda>e. JUndefined)\<rparr>"]
  by (simp add: sample_simps)

end
